theory Spec2Isabelle
  imports Main "HOL-Library.Word" "HOL-Library.Multiset"
begin

unbundle bit_operations_syntax

section \<open>DNS records, as the program sees them through the DNS library\<close>

text \<open>
  The program handles resource records through the Go DNS library: every record is a
  value of one concrete Go type (\<^verbatim>\<open>*dns.DNSKEY\<close>, \<^verbatim>\<open>*dns.NS\<close>, ...), and the
  program tells records apart with type assertions such as \<^verbatim>\<open>a.(*dns.DNSKEY)\<close>.
  A constructor of \<open>RR\<close> is one such concrete type; in the library \<^verbatim>\<open>CDNSKEY\<close>
  embeds \<^verbatim>\<open>DNSKEY\<close> and \<^verbatim>\<open>CDS\<close> embeds \<^verbatim>\<open>DS\<close>, and they are types of their
  own. \<open>OtherRR\<close> stands for every other concrete type.
\<close>

type_synonym uint8 = "8 word"
type_synonym uint16 = "16 word"
type_synonym uint32 = "32 word"

record RR_Header =
  Hdr_Name :: string
  Hdr_Rrtype :: uint16
  Hdr_Class :: uint16
  Hdr_Ttl :: uint32

record DNSKEY_rr =
  Hdr :: RR_Header
  Flags :: uint16
  Protocol :: uint8
  Algorithm :: uint8
  PublicKey :: string

record DS_rr =
  DS_Hdr :: RR_Header
  KeyTag :: uint16
  DS_Algorithm :: uint8
  DigestType :: uint8
  Digest :: string

datatype RR =
    is_DNSKEY: DNSKEY DNSKEY_rr
  | is_CDNSKEY: CDNSKEY DNSKEY_rr
  | is_DS: DS DS_rr
  | is_CDS: CDS DS_rr
  | is_NS: NS RR_Header string
  | is_SOA: SOA RR_Header string string uint32 uint32 uint32 uint32 uint32
  | is_CSYNC: CSYNC RR_Header uint32 uint16 "uint16 list"
  | OtherRR RR_Header

text \<open>The library's constants the program names.\<close>

definition TypeA :: uint16 where "TypeA = 1"
definition TypeNS :: uint16 where "TypeNS = 2"
definition TypeSOA :: uint16 where "TypeSOA = 6"
definition TypeAAAA :: uint16 where "TypeAAAA = 28"
definition TypeDS :: uint16 where "TypeDS = 43"
definition TypeDNSKEY :: uint16 where "TypeDNSKEY = 48"
definition TypeCDS :: uint16 where "TypeCDS = 59"
definition TypeCDNSKEY :: uint16 where "TypeCDNSKEY = 60"
definition TypeCSYNC :: uint16 where "TypeCSYNC = 62"
definition ClassINET :: uint16 where "ClassINET = 1"
definition SHA256 :: uint8 where "SHA256 = 2"
definition RcodeSuccess :: int where "RcodeSuccess = 0"

text \<open>
  \<^verbatim>\<open>dns.TypeToString\<close> is a Go map from type codes to mnemonics; a code that is not a
  key reads as the empty string. The entries below are the library's for the codes
  given; its other entries are mnemonics that no \<^verbatim>\<open>case\<close> of the program tests.
\<close>

definition TypeToString :: "uint16 \<Rightarrow> string" where
  "TypeToString t =
     (if t = 1 then ''A'' else if t = 2 then ''NS'' else if t = 5 then ''CNAME''
      else if t = 6 then ''SOA'' else if t = 12 then ''PTR'' else if t = 15 then ''MX''
      else if t = 16 then ''TXT'' else if t = 28 then ''AAAA'' else if t = 33 then ''SRV''
      else if t = 43 then ''DS'' else if t = 46 then ''RRSIG'' else if t = 47 then ''NSEC''
      else if t = 48 then ''DNSKEY'' else if t = 50 then ''NSEC3''
      else if t = 59 then ''CDS'' else if t = 60 then ''CDNSKEY''
      else if t = 62 then ''CSYNC'' else if t = 255 then ''ANY'' else [])"

text \<open>
  \<^verbatim>\<open>dns.RcodeToString\<close>, likewise, with the library's entries for the codes given; the
  name of a code only enters the text of an error.
\<close>

definition RcodeToString :: "int \<Rightarrow> string" where
  "RcodeToString r =
     (if r = 0 then ''NOERROR'' else if r = 1 then ''FORMERR'' else if r = 2 then ''SERVFAIL''
      else if r = 3 then ''NXDOMAIN'' else if r = 4 then ''NOTIMP'' else if r = 5 then ''REFUSED''
      else if r = 9 then ''NOTAUTH'' else if r = 10 then ''NOTZONE'' else [])"

text \<open>The type code that belongs to a record's concrete Go type.\<close>

fun RRtypeOf :: "RR \<Rightarrow> uint16" where
  "RRtypeOf (DNSKEY k) = TypeDNSKEY"
| "RRtypeOf (CDNSKEY k) = TypeCDNSKEY"
| "RRtypeOf (DS d) = TypeDS"
| "RRtypeOf (CDS d) = TypeCDS"
| "RRtypeOf (NS h n) = TypeNS"
| "RRtypeOf (SOA h n m serial refresh retry expire minttl) = TypeSOA"
| "RRtypeOf (CSYNC h serial flags bitmap) = TypeCSYNC"
| "RRtypeOf (OtherRR h) = Hdr_Rrtype h"

text \<open>
  A DNS exchange is the library's and the network's: \<^verbatim>\<open>c.Exchange(m, address)\<close> is a
  function \<open>exchange\<close> from the message sent and the address to an error or the
  response. A query carries its name, its type and, when the message is signed, the
  TSIG key name and secret.
\<close>

datatype DnsRequest = Question string uint16 "(string \<times> string) option"

record DnsMsg =
  Rcode :: int
  Answer :: "RR list"

type_synonym exchange = "DnsRequest \<Rightarrow> string \<Rightarrow> string + DnsMsg"

section \<open>Signers and signer operations\<close>

record Signer =
  Signer_Name :: string
  Method :: string
  Auth :: string
  Address :: string
  Port :: string

text \<open>
  A channel of results is named by a number; \<open>None\<close> is Go's nil channel. What was
  sent on the channels is a log of (channel, value) pairs, oldest first.
\<close>

type_synonym chan = nat

record SignerOpResult =
  Status :: int
  RRs :: "RR list"
  Error :: "string option"
  RawResponse :: string

type_synonym sends = "(chan \<times> SignerOpResult) list"

record SignerOp =
  Signer :: "Signer option"
  Zone :: string
  Owner :: string
  RRtype :: uint16
  Inserts :: "RR list list option"
  Removes :: "RR list list option"
  Response :: "chan option"

text \<open>\<^verbatim>\<open>SignerOpResult{Error: err}\<close>: the fields not given are zero.\<close>

definition ErrorResult :: "string \<Rightarrow> SignerOpResult" where
  "ErrorResult err = \<lparr>Status = 0, RRs = [], Error = Some err, RawResponse = []\<rparr>"

text \<open>\<^verbatim>\<open>strings.SplitN(s, ":", 2)\<close>: split at the first colon, if there is one.\<close>

definition SplitN_colon_2 :: "string \<Rightarrow> string list" where
  "SplitN_colon_2 s =
     (if CHR '':'' \<in> set s
      then [takeWhile (\<lambda>c. c \<noteq> CHR '':'') s, tl (dropWhile (\<lambda>c. c \<noteq> CHR '':'') s)]
      else [s])"

subsection \<open>RLDdnsFetchRRset\<close>

text \<open>
  The \<^verbatim>\<open>switch\<close> in the loop over the answer section: the case is chosen by the
  mnemonic of the requested type, and a record is appended only when the type assertion
  of that case succeeds.
\<close>

definition fetch_switch :: "string \<Rightarrow> RR \<Rightarrow> RR list \<Rightarrow> RR list" where
  "fetch_switch tn a rrs =
     (if tn = ''DNSKEY'' then (if is_DNSKEY a then rrs @ [a] else rrs)
      else if tn = ''CDS'' then (if is_CDS a then rrs @ [a] else rrs)
      else if tn = ''CDNSKEY'' then (if is_CDNSKEY a then rrs @ [a] else rrs)
      else if tn = ''NS'' then (if is_NS a then rrs @ [a] else rrs)
      else if tn = ''DS'' then (if is_DS a then rrs @ [a] else rrs)
      else if tn = ''SOA'' then (if is_SOA a then rrs @ [a] else rrs)
      else if tn = ''CSYNC'' then (if is_CSYNC a then rrs @ [a] else rrs)
      else rrs)"

fun fetch_filter :: "string \<Rightarrow> RR list \<Rightarrow> RR list \<Rightarrow> RR list" where
  "fetch_filter tn [] rrs = rrs"
| "fetch_filter tn (a # as) rrs = fetch_filter tn as (fetch_switch tn a rrs)"

text \<open>
  The pre-requisite checks: each later check overwrites the error of an earlier one.
\<close>

definition fetch_prereq :: "Signer \<Rightarrow> string option" where
  "fetch_prereq signer =
     (let err1 = (if Address signer = [] then Some (''No ip|host for signer '' @ Signer_Name signer) else None);
          err2 = (if Auth signer = [] then Some (''No TSIG for signer '' @ Signer_Name signer) else err1)
      in if length (SplitN_colon_2 (Auth signer)) \<noteq> 2
         then Some (''Incorrect TSIG for signer '' @ Signer_Name signer) else err2)"

text \<open>
  \<open>RLDdnsFetchRRset ex fdop log\<close> is what the function returns (rate-limited, hold,
  error) and the log of sends after it. It does not return (\<open>None\<close>) when \<open>fdop.Signer\<close>
  is nil (the dereference panics) or \<open>fdop.Response\<close> is nil (a send on a nil channel
  blocks for ever). A send is logged; the capacity of the channel is not modelled.
\<close>

definition RLDdnsFetchRRset ::
    "exchange \<Rightarrow> SignerOp \<Rightarrow> sends \<Rightarrow> ((bool \<times> int \<times> string option) \<times> sends) option" where
  "RLDdnsFetchRRset ex fdop log =
     (case Signer fdop of
        None \<Rightarrow> None
      | Some signer \<Rightarrow>
          (case Response fdop of
             None \<Rightarrow> None
           | Some c \<Rightarrow>
               (case fetch_prereq signer of
                  Some err \<Rightarrow> Some ((False, 0, None), log @ [(c, ErrorResult err)])
                | None \<Rightarrow>
                    (let tsig = SplitN_colon_2 (Auth signer);
                         m = Question (Owner fdop) (RRtype fdop) (Some (hd tsig @ ''.'', hd (tl tsig)))
                     in case ex m (Address signer @ '':53'') of
                          Inl err \<Rightarrow> Some ((False, 0, None), log @ [(c, ErrorResult err)])
                        | Inr r \<Rightarrow>
                            if Rcode r \<noteq> RcodeSuccess
                            then Some ((False, 0, None),
                                   log @ [(c, ErrorResult (''Fetch of '' @ TypeToString (RRtype fdop)
                                     @ '' RRset failed, RCODE = '' @ RcodeToString (Rcode r)))])
                            else Some ((False, 0, None),
                                   log @ [(c, \<lparr>Status = 0,
                                               RRs = fetch_filter (TypeToString (RRtype fdop)) (Answer r) [],
                                               Error = None, RawResponse = ''Tjolahopp''\<rparr>)])))))"

subsection \<open>The rlddns updater\<close>

text \<open>
  A receive \<^verbatim>\<open><-ch\<close> yields the first value sent on the channel. It does not return
  (\<open>None\<close>) on a nil channel, or when nothing was sent on the channel.
\<close>

definition recv :: "sends \<Rightarrow> chan option \<Rightarrow> SignerOpResult option" where
  "recv log ch = (case ch of None \<Rightarrow> None | Some c \<Rightarrow> map_of log c)"

text \<open>
  The updater's methods send an op to the manager and wait for the answer on the op's
  own channel. \<open>mgr op\<close> is the manager's side: the log of sends once the manager has
  handled what it was sent. Each method yields the op it sent and, when the receive
  returns, its return value. \<open>c\<close> is the channel \<^verbatim>\<open>make(chan SignerOpResult, 2)\<close>
  creates.
\<close>

definition RLDdnsUpdater_Update ::
    "(SignerOp \<Rightarrow> sends) \<Rightarrow> Signer \<Rightarrow> string \<Rightarrow> string \<Rightarrow> RR list list option \<Rightarrow> RR list list option
       \<Rightarrow> SignerOp \<times> string option option" where
  "RLDdnsUpdater_Update mgr signer zone fqdn inserts removes =
     (let op = \<lparr>Signer = None, Zone = [], Owner = [], RRtype = 0, Inserts = None,
                 Removes = None, Response = None\<rparr>
      in (op, case recv (mgr op) (Response op) of None \<Rightarrow> None | Some resp \<Rightarrow> Some (Error resp)))"

definition RLDdnsUpdater_FetchRRset ::
    "(SignerOp \<Rightarrow> sends) \<Rightarrow> chan \<Rightarrow> Signer \<Rightarrow> string \<Rightarrow> string \<Rightarrow> uint16
       \<Rightarrow> SignerOp \<times> (string option \<times> RR list) option" where
  "RLDdnsUpdater_FetchRRset mgr c s zone owner rrtype =
     (let op = \<lparr>Signer = Some s, Zone = zone, Owner = owner, RRtype = rrtype, Inserts = None,
                 Removes = None, Response = Some c\<rparr>
      in (op, case recv (mgr op) (Response op) of None \<Rightarrow> None
              | Some resp \<Rightarrow> Some (Error resp, RRs resp)))"

section \<open>The rate-limited DDNS manager\<close>

text \<open>
  \<^verbatim>\<open>ddnsmgr\<close> reads the two limits and starts one worker per lane. A worker is a loop
  around a \<^verbatim>\<open>select\<close> over three events: an op arrives, the ticker fires, the stop
  signal arrives. The state of a worker is its queue, its counter, the world its network
  call acts on, and the trace of what the worker itself did: the network calls it made
  and the arguments of its \<^verbatim>\<open>time.Sleep\<close> calls. The argument of \<^verbatim>\<open>time.Sleep\<close> is a
  \<^verbatim>\<open>time.Duration\<close>, a number of nanoseconds.

  The network call of a lane (\<^verbatim>\<open>music.RLDdnsFetchRRset\<close>, \<^verbatim>\<open>music.RLDdnsUpdate\<close>) is
  a parameter \<open>call\<close>: from the op and the world to (rate-limited, hold, error) and the new
  world, or \<open>None\<close> when the call does not return. The manager's source names the op type
  \<^verbatim>\<open>DesecOp\<close>; the functions it calls take a \<^verbatim>\<open>SignerOp\<close>.
\<close>

type_synonym Duration = int

datatype mgr_event = NetCall SignerOp | Sleep Duration

record limits =
  fetch_limit :: int
  update_limit :: int

record 'w lane =
  OpQueue :: "SignerOp list"
  ops :: int
  world :: 'w
  trace :: "mgr_event list"

type_synonym 'w netcall = "SignerOp \<Rightarrow> 'w \<Rightarrow> ((bool \<times> int \<times> string option) \<times> 'w) option"

datatype lane_input = Recv SignerOp | Tick | Done

text \<open>The start of \<^verbatim>\<open>ddnsmgr\<close>: a limit of 0 is fatal; then both queues are empty.\<close>

definition ddnsmgr :: "limits \<Rightarrow> 'w \<Rightarrow> string + ('w lane \<times> 'w lane)" where
  "ddnsmgr lim w =
     (if fetch_limit lim = 0
      then Inl ''Error: signers.ddns.limits.fetch must be defined and > 0. Likely value: 5 (op/s).''
      else if update_limit lim = 0
      then Inl ''Error: signers.ddns.limits.update must be defined and > 0. Likely value: 2 (op/s).''
      else Inr (\<lparr>OpQueue = [], ops = 0, world = w, trace = []\<rparr>,
                \<lparr>OpQueue = [], ops = 0, world = w, trace = []\<rparr>))"

text \<open>
  The inner \<^verbatim>\<open>for\<close> loop: call; when the call says rate-limited, sleep
  \<^verbatim>\<open>time.Duration(hold)\<close> and call again. The loop may run for ever.
\<close>

partial_function (option) call_loop ::
    "'w netcall \<Rightarrow> SignerOp \<Rightarrow> 'w \<times> mgr_event list \<Rightarrow> ('w \<times> mgr_event list) option" where
  "call_loop call op s =
     (case call op (fst s) of
        None \<Rightarrow> None
      | Some (r, w') \<Rightarrow>
          if \<not> fst r then Some (w', snd s @ [NetCall op])
          else call_loop call op (w', snd s @ [NetCall op, Sleep (fst (snd r))]))"

text \<open>
  The \<^verbatim>\<open>range\<close> loop of a tick. Go evaluates the range expression once, so the loop runs
  over the queue as it was when the tick began (the list argument), while the
  \<^verbatim>\<open>append\<close> in the loop assigns to the queue variable (the field). Nothing in the loop,
  or after it, removes an op from the queue.
\<close>

fun fetch_range :: "limits \<Rightarrow> 'w netcall \<Rightarrow> SignerOp list \<Rightarrow> 'w lane \<Rightarrow> 'w lane option" where
  "fetch_range lim call [] s = Some s"
| "fetch_range lim call (fdop # rest) s =
     (let s1 = s\<lparr>ops := ops s + 1\<rparr> in
      if ops s1 > fetch_limit lim then Some (s1\<lparr>OpQueue := OpQueue s1 @ [fdop]\<rparr>)
      else case call_loop call fdop (world s1, trace s1) of
             None \<Rightarrow> None
           | Some (w', tr') \<Rightarrow> fetch_range lim call rest (s1\<lparr>world := w', trace := tr'\<rparr>))"

fun update_range :: "limits \<Rightarrow> 'w netcall \<Rightarrow> SignerOp list \<Rightarrow> 'w lane \<Rightarrow> 'w lane option" where
  "update_range lim call [] s = Some s"
| "update_range lim call (udop # rest) s =
     (let s1 = s\<lparr>ops := ops s + 1\<rparr> in
      if ops s1 > fetch_limit lim then Some (s1\<lparr>OpQueue := OpQueue s1 @ [udop]\<rparr>)
      else case call_loop call udop (world s1, trace s1) of
             None \<Rightarrow> None
           | Some (w', tr') \<Rightarrow> update_range lim call rest (s1\<lparr>world := w', trace := tr'\<rparr>))"

text \<open>
  One turn of a worker's \<^verbatim>\<open>select\<close>. On the stop signal the worker stops its ticker and
  goes on with its loop; its queue is left as it is.
\<close>

fun fetch_lane :: "limits \<Rightarrow> 'w netcall \<Rightarrow> 'w lane \<Rightarrow> lane_input \<Rightarrow> 'w lane option" where
  "fetch_lane lim call s (Recv op) = Some (s\<lparr>OpQueue := OpQueue s @ [op]\<rparr>)"
| "fetch_lane lim call s Tick = fetch_range lim call (OpQueue s) (s\<lparr>ops := 0\<rparr>)"
| "fetch_lane lim call s Done = Some s"

fun update_lane :: "limits \<Rightarrow> 'w netcall \<Rightarrow> 'w lane \<Rightarrow> lane_input \<Rightarrow> 'w lane option" where
  "update_lane lim call s (Recv op) = Some (s\<lparr>OpQueue := OpQueue s @ [op]\<rparr>)"
| "update_lane lim call s Tick = update_range lim call (OpQueue s) (s\<lparr>ops := 0\<rparr>)"
| "update_lane lim call s Done = Some s"

text \<open>A worker run over a sequence of events.\<close>

fun run_lane :: "('s \<Rightarrow> lane_input \<Rightarrow> 's option) \<Rightarrow> 's \<Rightarrow> lane_input list \<Rightarrow> 's option" where
  "run_lane step s [] = Some s"
| "run_lane step s (i # is) = (case step s i of None \<Rightarrow> None | Some s' \<Rightarrow> run_lane step s' is)"

text \<open>The network calls a trace holds, in order.\<close>

fun net_calls :: "mgr_event list \<Rightarrow> SignerOp list" where
  "net_calls [] = []"
| "net_calls (NetCall op # es) = op # net_calls es"
| "net_calls (Sleep d # es) = net_calls es"

section \<open>Zones and the LEAVE transitions\<close>

text \<open>
  \<^verbatim>\<open>SignerMap\<close> is a Go map from signer names to signers. A \<^verbatim>\<open>range\<close> over it visits
  every entry once, in an order Go does not fix, and two \<^verbatim>\<open>range\<close> statements over the
  same map need not visit in the same order. The list is the entries in the order in which
  the first \<^verbatim>\<open>range\<close> of a transition function visits them; the order of a second
  \<^verbatim>\<open>range\<close> in the same function is \<open>SecondRange\<close> of the environment below, which
  rearranges the entries.
\<close>

record SignerGroup =
  SignerMap :: "(string \<times> Signer) list"

record Zone =
  Zone_Name :: string
  ZoneType :: string
  FSM :: string
  FSMSigner :: string
  FSMStatus :: string
  StopReason :: string
  SGroup :: "SignerGroup option"

text \<open>
  What a transition reaches outside the zone value: the zone database
  (\<^verbatim>\<open>z.SignerGroup()\<close>, \<^verbatim>\<open>GetSignerByName\<close>, \<^verbatim>\<open>Prepare\<close>, and a statement's
  \<^verbatim>\<open>Query\<close> with its rows, each row scanning to an error or to its column), the DNS
  exchange, the updater chosen by \<^verbatim>\<open>GetUpdater(signer.Method)\<close> with its \<^verbatim>\<open>Update\<close>,
  the DNS library's key tag and digest of a DNSKEY, and the order in which a second
  \<^verbatim>\<open>range\<close> visits a map. None of these is among the sources; each is a parameter.
\<close>

record env =
  SignerGroupOf :: "Zone \<Rightarrow> SignerGroup option"
  GetSignerByName :: "string \<Rightarrow> string + Signer"
  Prepare :: "string \<Rightarrow> string option"
  StmtQuery :: "string \<Rightarrow> string \<Rightarrow> string \<Rightarrow> string + (string + string) list"
  Exchange :: exchange
  UpdaterUpdate :: "Signer \<Rightarrow> string \<Rightarrow> string \<Rightarrow> RR list list option \<Rightarrow> RR list list option
                      \<Rightarrow> string option"
  lib_KeyTag :: "DNSKEY_rr \<Rightarrow> uint16"
  lib_Digest :: "uint8 \<Rightarrow> DNSKEY_rr \<Rightarrow> string"
  SecondRange :: "(string \<times> Signer) list \<Rightarrow> (string \<times> Signer) list"

text \<open>
  What a transition did outside: database lookups, DNS queries (message and address) and
  updates sent to a signer (signer, zone, owner, inserts, removes), in order.
\<close>

datatype io =
    DbGetSigner string
  | DbQuery string string string
  | DnsQuery DnsRequest string
  | DnsUpdate Signer string string "RR list list option" "RR list list option"

record fsm_state =
  zone :: Zone
  io :: "io list"

text \<open>
  A transition function returns its boolean, or the program ends in \<^verbatim>\<open>log.Fatalf\<close>
  (which exits the process), or it panics on a nil pointer.
\<close>

datatype outcome = Return bool | Fatal string | Panic

definition log_io :: "io \<Rightarrow> fsm_state \<Rightarrow> fsm_state" where
  "log_io ev st = st\<lparr>io := io st @ [ev]\<rparr>"

text \<open>
  Modelled from the spec: \<^verbatim>\<open>Zone.SetStopReason\<close>, which the transitions call and which
  is not among the sources. The spec's zone has a \<open>StopReason\<close>, a "human string set by
  the last failing transition"; the model stores the string there and changes nothing
  else.
\<close>

definition SetStopReason :: "string \<Rightarrow> fsm_state \<Rightarrow> fsm_state" where
  "SetStopReason reason st = st\<lparr>zone := (zone st)\<lparr>StopReason := reason\<rparr>\<rparr>"

text \<open>The \<^verbatim>\<open>rows.Next()\<close> loop: the first row that fails to scan ends it.\<close>

fun scan_rows :: "(string + string) list \<Rightarrow> string list \<Rightarrow> string + string list" where
  "scan_rows [] acc = Inr acc"
| "scan_rows (Inl err # rows) acc = Inl err"
| "scan_rows (Inr v # rows) acc = scan_rows rows (acc @ [v])"

text \<open>Decimal digits, for \<^verbatim>\<open>%d\<close>.\<close>

function dec :: "nat \<Rightarrow> string" where
  "dec n = (if n < 10 then [''0123456789'' ! n] else dec (n div 10) @ [''0123456789'' ! (n mod 10)])"
  by pat_completeness auto
termination
  by (relation "measure id") auto

definition sql_nses :: string where
  "sql_nses = ''SELECT ns FROM zone_nses WHERE zone = ? AND signer = ?''"

definition sql_dnskeys :: string where
  "sql_dnskeys = ''SELECT dnskey FROM zone_dnskeys WHERE zone = ? AND signer = ?''"

definition msg_no_group :: "Zone \<Rightarrow> string" where
  "msg_no_group z = ''Zone '' @ Zone_Name z @ '' in process '' @ FSM z @ '' not attached to any signer group.''"

definition msg_no_leaving :: "Zone \<Rightarrow> string" where
  "msg_no_leaving z = ''Leaving signer name for zone '' @ Zone_Name z @ '' unset.''"

subsection \<open>LEAVE_SYNC_NSES\<close>

definition LeaveSyncNsesPreCondition :: "env \<Rightarrow> Zone \<Rightarrow> outcome \<times> fsm_state" where
  "LeaveSyncNsesPreCondition e z = (Return True, \<lparr>zone = z, io = []\<rparr>)"

text \<open>The loop over the signer map; \<open>Some\<close> is a \<^verbatim>\<open>return\<close> from inside the loop.\<close>

fun sync_nses_signers ::
    "env \<Rightarrow> Zone \<Rightarrow> RR list \<Rightarrow> Signer list \<Rightarrow> fsm_state \<Rightarrow> outcome option \<times> fsm_state" where
  "sync_nses_signers e z nsrem [] st = (None, st)"
| "sync_nses_signers e z nsrem (signer # rest) st =
     (let st1 = log_io (DnsUpdate signer (Zone_Name z) (Zone_Name z) None (Some [nsrem])) st in
      case UpdaterUpdate e signer (Zone_Name z) (Zone_Name z) None (Some [nsrem]) of
        Some err \<Rightarrow> (Some (Return False),
            SetStopReason (''Unable to remove NSes from '' @ Signer_Name signer @ '': '' @ err) st1)
      | None \<Rightarrow> sync_nses_signers e z nsrem rest st1)"

definition LeaveSyncNsesAction :: "env \<Rightarrow> Zone \<Rightarrow> outcome \<times> fsm_state" where
  "LeaveSyncNsesAction e z =
     (let st = \<lparr>zone = z, io = []\<rparr> in
      if ZoneType z = ''debug'' then (Return True, st)
      else if SignerGroupOf e z = None then (Fatal (msg_no_group z), st)
      else if FSMSigner z = [] then (Fatal (msg_no_leaving z), st)
      else
        let leavingSignerName = FSMSigner z; st1 = log_io (DbGetSigner leavingSignerName) st in
        case GetSignerByName e leavingSignerName of
          Inl err \<Rightarrow> (Return False,
              SetStopReason (''Unable to get leaving signer '' @ leavingSignerName @ '': '' @ err) st1)
        | Inr leavingSigner \<Rightarrow>
            (case Prepare e sql_nses of
               Some err \<Rightarrow> (Return False, st1)
             | None \<Rightarrow>
                 (let st2 = log_io (DbQuery sql_nses (Zone_Name z) (Signer_Name leavingSigner)) st1 in
                  case StmtQuery e sql_nses (Zone_Name z) (Signer_Name leavingSigner) of
                    Inl err \<Rightarrow> (Return False, st2)
                  | Inr rows \<Rightarrow>
                      (case scan_rows rows [] of
                         Inl err \<Rightarrow> (Return False, st2)
                       | Inr nss \<Rightarrow>
                           (let nsrem = map (NS \<lparr>Hdr_Name = Zone_Name z, Hdr_Rrtype = TypeNS,
                                                 Hdr_Class = ClassINET, Hdr_Ttl = 0\<rparr>) nss in
                            case SGroup z of
                              None \<Rightarrow> (Panic, st2)
                            | Some sg \<Rightarrow>
                                (case sync_nses_signers e z nsrem (map snd (SignerMap sg)) st2 of
                                   (Some out, st3) \<Rightarrow> (out, st3)
                                 | (None, st3) \<Rightarrow>
                                     (let st4 = log_io (DnsUpdate leavingSigner (Zone_Name z) (Zone_Name z)
                                                         None (Some [nsrem])) st3 in
                                      case UpdaterUpdate e leavingSigner (Zone_Name z) (Zone_Name z)
                                             None (Some [nsrem]) of
                                        Some err \<Rightarrow> (Return False,
                                            SetStopReason (''Unable to remove NSes from ''
                                              @ Signer_Name leavingSigner @ '': '' @ err) st4)
                                      | None \<Rightarrow> (Return True, st4))))))))"

subsection \<open>LEAVE_ADD_CDS\<close>

text \<open>The stored identity of a key: \<^verbatim>\<open>fmt.Sprintf("%d-%d-%s", Protocol, Algorithm, PublicKey)\<close>.\<close>

definition key_id :: "DNSKEY_rr \<Rightarrow> string" where
  "key_id k = dec (unat (Protocol k)) @ ''-'' @ dec (unat (Algorithm k)) @ ''-'' @ PublicKey k"

text \<open>The first DNSKEY of an answer section whose identity is among the stored ones.\<close>

fun listed_DNSKEY :: "string list \<Rightarrow> RR list \<Rightarrow> DNSKEY_rr option" where
  "listed_DNSKEY dnskeys [] = None"
| "listed_DNSKEY dnskeys (DNSKEY k # as) =
     (if key_id k \<in> set dnskeys then Some k else listed_DNSKEY dnskeys as)"
| "listed_DNSKEY dnskeys (a # as) = listed_DNSKEY dnskeys as"

fun cds_pre_signers ::
    "env \<Rightarrow> Zone \<Rightarrow> string \<Rightarrow> string list \<Rightarrow> Signer list \<Rightarrow> fsm_state \<Rightarrow> outcome option \<times> fsm_state" where
  "cds_pre_signers e z leavingSignerName dnskeys [] st = (None, st)"
| "cds_pre_signers e z leavingSignerName dnskeys (s # rest) st =
     (if Signer_Name s = leavingSignerName then cds_pre_signers e z leavingSignerName dnskeys rest st
      else
        let m = Question (Zone_Name z) TypeDNSKEY None;
            addr = Address s @ '':'' @ Port s;
            st1 = log_io (DnsQuery m addr) st in
        case Exchange e m addr of
          Inl err \<Rightarrow> (Some (Return False),
              SetStopReason (''Unable to fetch DNSKEYs from '' @ Signer_Name s @ '': '' @ err) st1)
        | Inr r \<Rightarrow>
            (case listed_DNSKEY dnskeys (Answer r) of
               Some k \<Rightarrow> (Some (Return False),
                   SetStopReason (''DNSKEY '' @ PublicKey k @ '' still exists in signer '' @ Signer_Name s) st1)
             | None \<Rightarrow> cds_pre_signers e z leavingSignerName dnskeys rest st1))"

definition LeaveAddCDSPreCondition :: "env \<Rightarrow> Zone \<Rightarrow> outcome \<times> fsm_state" where
  "LeaveAddCDSPreCondition e z =
     (let st = \<lparr>zone = z, io = []\<rparr> in
      if ZoneType z = ''debug'' then (Return True, st)
      else if SignerGroupOf e z = None then (Fatal (msg_no_group z), st)
      else if FSMSigner z = [] then (Fatal (msg_no_leaving z), st)
      else
        let leavingSignerName = FSMSigner z; st1 = log_io (DbGetSigner leavingSignerName) st in
        case GetSignerByName e leavingSignerName of
          Inl err \<Rightarrow> (Return False,
              SetStopReason (''Unable to get leaving signer '' @ leavingSignerName @ '': '' @ err) st1)
        | Inr leavingSigner \<Rightarrow>
            (case Prepare e sql_dnskeys of
               Some err \<Rightarrow> (Return False, st1)
             | None \<Rightarrow>
                 (let st2 = log_io (DbQuery sql_dnskeys (Zone_Name z) (Signer_Name leavingSigner)) st1 in
                  case StmtQuery e sql_dnskeys (Zone_Name z) (Signer_Name leavingSigner) of
                    Inl err \<Rightarrow> (Return False, st2)
                  | Inr rows \<Rightarrow>
                      (case scan_rows rows [] of
                         Inl err \<Rightarrow> (Return False, st2)
                       | Inr dnskeys \<Rightarrow>
                           (case SGroup z of
                              None \<Rightarrow> (Panic, st2)
                            | Some sg \<Rightarrow>
                                (case cds_pre_signers e z leavingSignerName dnskeys
                                        (map snd (SignerMap sg)) st2 of
                                   (Some out, st3) \<Rightarrow> (out, st3)
                                 | (None, st3) \<Rightarrow> (Return True, st3)))))))"

text \<open>
  The DNS library's conversions. \<^verbatim>\<open>ToDS(h)\<close> copies name, class and TTL of the key,
  takes the key's algorithm and key tag, and digests the key with the digest type \<open>h\<close>;
  \<^verbatim>\<open>ToCDS\<close> and \<^verbatim>\<open>ToCDNSKEY\<close> copy the record and change the type in the header.
\<close>

definition ToDS :: "env \<Rightarrow> DNSKEY_rr \<Rightarrow> uint8 \<Rightarrow> DS_rr" where
  "ToDS e k h =
     \<lparr>DS_Hdr = \<lparr>Hdr_Name = Hdr_Name (Hdr k), Hdr_Rrtype = TypeDS, Hdr_Class = Hdr_Class (Hdr k),
               Hdr_Ttl = Hdr_Ttl (Hdr k)\<rparr>,
      KeyTag = lib_KeyTag e k, DS_Algorithm = Algorithm k, DigestType = h, Digest = lib_Digest e h k\<rparr>"

definition ToCDS :: "DS_rr \<Rightarrow> DS_rr" where
  "ToCDS d = d\<lparr>DS_Hdr := (DS_Hdr d)\<lparr>Hdr_Rrtype := TypeCDS\<rparr>\<rparr>"

definition ToCDNSKEY :: "DNSKEY_rr \<Rightarrow> DNSKEY_rr" where
  "ToCDNSKEY k = k\<lparr>Hdr := (Hdr k)\<lparr>Hdr_Rrtype := TypeCDNSKEY\<rparr>\<rparr>"

text \<open>The loop over one answer section, appending to \<open>cdses\<close> and \<open>cdnskeys\<close>.\<close>

fun add_cds_answers :: "env \<Rightarrow> RR list \<Rightarrow> RR list \<times> RR list \<Rightarrow> RR list \<times> RR list" where
  "add_cds_answers e [] acc = acc"
| "add_cds_answers e (DNSKEY dnskey # as) acc =
     (if Flags dnskey AND 0x101 = 257
      then add_cds_answers e as (fst acc @ [CDS (ToCDS (ToDS e dnskey SHA256))],
                                  snd acc @ [CDNSKEY (ToCDNSKEY dnskey)])
      else add_cds_answers e as acc)"
| "add_cds_answers e (a # as) acc = add_cds_answers e as acc"

text \<open>The first loop over the signer map: \<open>Inl\<close> is a \<^verbatim>\<open>return\<close> from inside the loop.\<close>

fun add_cds_fetch ::
    "env \<Rightarrow> Zone \<Rightarrow> string \<Rightarrow> Signer list \<Rightarrow> RR list \<times> RR list \<Rightarrow> fsm_state
       \<Rightarrow> (outcome + RR list \<times> RR list) \<times> fsm_state" where
  "add_cds_fetch e z leavingSignerName [] acc st = (Inr acc, st)"
| "add_cds_fetch e z leavingSignerName (s # rest) acc st =
     (if Signer_Name s = leavingSignerName then add_cds_fetch e z leavingSignerName rest acc st
      else
        let m = Question (Zone_Name z) TypeDNSKEY None;
            addr = Address s @ '':'' @ Port s;
            st1 = log_io (DnsQuery m addr) st in
        case Exchange e m addr of
          Inl err \<Rightarrow> (Inl (Return False),
              SetStopReason (''Unable to fetch DNSKEYs from '' @ Signer_Name s @ '': '' @ err) st1)
        | Inr r \<Rightarrow> add_cds_fetch e z leavingSignerName rest (add_cds_answers e (Answer r) acc) st1)"

text \<open>The second loop over the signer map, over the signers in the order of its own visit.\<close>

fun add_cds_publish ::
    "env \<Rightarrow> Zone \<Rightarrow> string \<Rightarrow> RR list list \<Rightarrow> Signer list \<Rightarrow> fsm_state \<Rightarrow> outcome option \<times> fsm_state" where
  "add_cds_publish e z leavingSignerName rrsets [] st = (None, st)"
| "add_cds_publish e z leavingSignerName rrsets (signer # rest) st =
     (if Signer_Name signer = leavingSignerName then add_cds_publish e z leavingSignerName rrsets rest st
      else
        let st1 = log_io (DnsUpdate signer (Zone_Name z) (Zone_Name z) (Some rrsets) None) st in
        case UpdaterUpdate e signer (Zone_Name z) (Zone_Name z) (Some rrsets) None of
          Some err \<Rightarrow> (Some (Return False),
              SetStopReason (''Unable to update '' @ Signer_Name signer
                @ '' with CDS/CDNSKEY record sets: '' @ err) st1)
        | None \<Rightarrow> add_cds_publish e z leavingSignerName rrsets rest st1)"

definition LeaveAddCDSAction :: "env \<Rightarrow> Zone \<Rightarrow> outcome \<times> fsm_state" where
  "LeaveAddCDSAction e z =
     (let st = \<lparr>zone = z, io = []\<rparr> in
      if ZoneType z = ''debug'' then (Return True, st)
      else if FSMSigner z = [] then (Fatal (msg_no_leaving z), st)
      else
        case SGroup z of
          None \<Rightarrow> (Panic, st)
        | Some sg \<Rightarrow>
            (case add_cds_fetch e z (FSMSigner z) (map snd (SignerMap sg)) ([], []) st of
               (Inl out, st1) \<Rightarrow> (out, st1)
             | (Inr acc, st1) \<Rightarrow>
                 (case add_cds_publish e z (FSMSigner z) [fst acc, snd acc]
                         (map snd (SecondRange e (SignerMap sg))) st1 of
                    (Some out, st2) \<Rightarrow> (out, st2)
                  | (None, st2) \<Rightarrow> (Return True, st2))))"

subsection \<open>LEAVE_ADD_CSYNC\<close>

definition leaving_signer_csync :: string where
  "leaving_signer_csync = ''signer2.catch22.se.''"

text \<open>The first NS of an answer section whose name is among the stored ones.\<close>

fun listed_NS :: "string list \<Rightarrow> RR list \<Rightarrow> string option" where
  "listed_NS nses [] = None"
| "listed_NS nses (NS h ns # as) = (if ns \<in> set nses then Some ns else listed_NS nses as)"
| "listed_NS nses (a # as) = listed_NS nses as"

text \<open>
  The NS check against one signer; the source has it twice, in the loop over the
  signer map and after it for the leaving signer.
\<close>

definition csync_pre_signer ::
    "env \<Rightarrow> Zone \<Rightarrow> string list \<Rightarrow> Signer \<Rightarrow> fsm_state \<Rightarrow> outcome option \<times> fsm_state" where
  "csync_pre_signer e z nses s st =
     (let m = Question (Zone_Name z) TypeNS None;
          addr = Address s @ '':53'';
          st1 = log_io (DnsQuery m addr) st in
      case Exchange e m addr of
        Inl err \<Rightarrow> (Some (Return False), st1)
      | Inr r \<Rightarrow>
          (case listed_NS nses (Answer r) of
             Some ns \<Rightarrow> (Some (Return False), st1)
           | None \<Rightarrow> (None, st1)))"

fun csync_pre_signers ::
    "env \<Rightarrow> Zone \<Rightarrow> string list \<Rightarrow> Signer list \<Rightarrow> fsm_state \<Rightarrow> outcome option \<times> fsm_state" where
  "csync_pre_signers e z nses [] st = (None, st)"
| "csync_pre_signers e z nses (s # rest) st =
     (case csync_pre_signer e z nses s st of
        (Some out, st1) \<Rightarrow> (Some out, st1)
      | (None, st1) \<Rightarrow> csync_pre_signers e z nses rest st1)"

definition LeaveAddCsyncPreCondition :: "env \<Rightarrow> Zone \<Rightarrow> outcome \<times> fsm_state" where
  "LeaveAddCsyncPreCondition e z =
     (let leavingSignerName = leaving_signer_csync;
          st1 = log_io (DbGetSigner leavingSignerName) \<lparr>zone = z, io = []\<rparr> in
      case GetSignerByName e leavingSignerName of
        Inl err \<Rightarrow> (Return False, st1)
      | Inr leavingSigner \<Rightarrow>
          (case Prepare e sql_nses of
             Some err \<Rightarrow> (Return False, st1)
           | None \<Rightarrow>
               (let st2 = log_io (DbQuery sql_nses (Zone_Name z) (Signer_Name leavingSigner)) st1 in
                case StmtQuery e sql_nses (Zone_Name z) (Signer_Name leavingSigner) of
                  Inl err \<Rightarrow> (Return False, st2)
                | Inr rows \<Rightarrow>
                    (case scan_rows rows [] of
                       Inl err \<Rightarrow> (Return False, st2)
                     | Inr nses \<Rightarrow>
                         (case SGroup z of
                            None \<Rightarrow> (Panic, st2)
                          | Some sg \<Rightarrow>
                              (case csync_pre_signers e z nses (map snd (SignerMap sg)) st2 of
                                 (Some out, st3) \<Rightarrow> (out, st3)
                               | (None, st3) \<Rightarrow>
                                   (case csync_pre_signer e z nses leavingSigner st3 of
                                      (Some out, st4) \<Rightarrow> (out, st4)
                                    | (None, st4) \<Rightarrow> (Return True, st4))))))))"

text \<open>The loop over one answer section: one CSYNC, and one update, per SOA.\<close>

fun csync_answers ::
    "env \<Rightarrow> Zone \<Rightarrow> Signer \<Rightarrow> RR list \<Rightarrow> fsm_state \<Rightarrow> outcome option \<times> fsm_state" where
  "csync_answers e z signer [] st = (None, st)"
| "csync_answers e z signer (SOA h ns mbox serial refresh retry expire minttl # as) st =
     (let csync = CSYNC \<lparr>Hdr_Name = Zone_Name z, Hdr_Rrtype = TypeCSYNC, Hdr_Class = ClassINET,
                         Hdr_Ttl = 300\<rparr> serial 3 [TypeA, TypeNS, TypeAAAA];
          st1 = log_io (DnsUpdate signer (Zone_Name z) (Zone_Name z) (Some [[csync]]) None) st in
      case UpdaterUpdate e signer (Zone_Name z) (Zone_Name z) (Some [[csync]]) None of
        Some err \<Rightarrow> (Some (Return False), st1)
      | None \<Rightarrow> csync_answers e z signer as st1)"
| "csync_answers e z signer (a # as) st = csync_answers e z signer as st"

definition csync_signer ::
    "env \<Rightarrow> Zone \<Rightarrow> Signer \<Rightarrow> fsm_state \<Rightarrow> outcome option \<times> fsm_state" where
  "csync_signer e z signer st =
     (let m = Question (Zone_Name z) TypeSOA None;
          addr = Address signer @ '':53'';
          st1 = log_io (DnsQuery m addr) st in
      case Exchange e m addr of
        Inl err \<Rightarrow> (Some (Return False), st1)
      | Inr r \<Rightarrow> csync_answers e z signer (Answer r) st1)"

fun csync_signers ::
    "env \<Rightarrow> Zone \<Rightarrow> Signer list \<Rightarrow> fsm_state \<Rightarrow> outcome option \<times> fsm_state" where
  "csync_signers e z [] st = (None, st)"
| "csync_signers e z (signer # rest) st =
     (case csync_signer e z signer st of
        (Some out, st1) \<Rightarrow> (Some out, st1)
      | (None, st1) \<Rightarrow> csync_signers e z rest st1)"

definition LeaveAddCsyncAction :: "env \<Rightarrow> Zone \<Rightarrow> outcome \<times> fsm_state" where
  "LeaveAddCsyncAction e z =
     (let leavingSignerName = leaving_signer_csync;
          st1 = log_io (DbGetSigner leavingSignerName) \<lparr>zone = z, io = []\<rparr> in
      case GetSignerByName e leavingSignerName of
        Inl err \<Rightarrow> (Return False, st1)
      | Inr leavingSigner \<Rightarrow>
          (case SGroup z of
             None \<Rightarrow> (Panic, st1)
           | Some sg \<Rightarrow>
               (case csync_signers e z (map snd (SignerMap sg)) st1 of
                  (Some out, st2) \<Rightarrow> (out, st2)
                | (None, st2) \<Rightarrow>
                    (case csync_signer e z leavingSigner st2 of
                       (Some out, st3) \<Rightarrow> (out, st3)
                     | (None, st3) \<Rightarrow> (Return True, st3)))))"

section \<open>The auto-push scheduler\<close>

text \<open>
  A row of the table \<^verbatim>\<open>zones\<close>; the columns hold strings (a NULL is not modelled). The
  statement \<open>AutoZones\<close> selects five of the columns, in the order of \<open>cols\<close>.
\<close>

record ZoneRow =
  name :: string
  zonetype :: string
  fsm :: string
  fsmsigner :: string
  fsmstatus :: string
  fsmmode :: string

type_synonym ZoneCols = "string \<times> string \<times> string \<times> string \<times> string"


text \<open>The constant \<^verbatim>\<open>AutoZones\<close>, a raw string of three lines of which the first is empty.\<close>

definition AutoZones :: string where
  "AutoZones = [CHR 10] @ ''SELECT name, zonetype, fsm, fsmsigner, fsmstatus'' @ [CHR 10]
     @ ''FROM zones WHERE fsmmode='' @ [CHR 39] @ ''auto'' @ [CHR 39]
     @ '' AND fsm != '' @ [CHR 39, CHR 39] @ '' AND fsmstatus != '' @ [CHR 39] @ ''stop'' @ [CHR 39]"


text \<open>
  The database and the FSM engine, as \<^verbatim>\<open>PushZones\<close> and \<^verbatim>\<open>PushZone\<close> use them; none of
  it is among the sources, so each is a parameter: the error of \<^verbatim>\<open>Prepare\<close> for a
  statement text and of \<^verbatim>\<open>Begin\<close>; what \<^verbatim>\<open>Query\<close> gives for a statement text, an error
  or the rows, each row scanning to an error or to its columns; \<^verbatim>\<open>CheckSQLError\<close>;
  \<^verbatim>\<open>GetZone\<close>; and \<^verbatim>\<open>ZoneStepFsm\<close>, which may change the database, and which does not
  return (\<open>None\<close>) when a transition ends the program in \<^verbatim>\<open>log.Fatalf\<close> or blocks.
\<close>

record ('db, 'z) engine =
  db_prepare :: "'db \<Rightarrow> string \<Rightarrow> string option"
  db_begin :: "'db \<Rightarrow> string option"
  db_query :: "'db \<Rightarrow> string \<Rightarrow> string + (string + ZoneCols) list"
  CheckSQLError :: "string \<Rightarrow> string \<Rightarrow> string option \<Rightarrow> bool \<Rightarrow> bool"
  GetZone :: "'db \<Rightarrow> string \<Rightarrow> 'z"
  ZoneStepFsm :: "'db \<Rightarrow> 'z \<Rightarrow> string \<Rightarrow> (bool \<times> 'db) option"

text \<open>
  \<^verbatim>\<open>PushZones\<close> returns an error value, or the program ends in \<^verbatim>\<open>log.Fatalf\<close>, or it
  panics on the nil rows of a failed query, or a step does not return. With the outcome
  comes the database as the pass left it.
\<close>

datatype push_outcome = Returns "string option" | PushFatal string | PushPanic | NoReturn

text \<open>
  \<^verbatim>\<open>PushZone\<close> reads the zone and calls \<^verbatim>\<open>ZoneStepFsm\<close> on it once; the \<^verbatim>\<open>GetZone\<close>
  after a successful step only feeds the log line.
\<close>

definition PushZone :: "('db, 'z) engine \<Rightarrow> string \<Rightarrow> 'db \<Rightarrow> 'db option" where
  "PushZone eng z db =
     (let dbzone = GetZone eng db z in
      case ZoneStepFsm eng db dbzone [] of
        None \<Rightarrow> None
      | Some (success, db') \<Rightarrow> Some db')"

text \<open>The \<^verbatim>\<open>rows.Next()\<close> loop: a row that fails to scan is fatal.\<close>

fun scan_zone_rows :: "(string + ZoneCols) list \<Rightarrow> string list \<Rightarrow> string + string list" where
  "scan_zone_rows [] zones = Inr zones"
| "scan_zone_rows (Inl err # rows) zones = Inl (''PushZones: Error from rows.Scan: '' @ err)"
| "scan_zone_rows (Inr c # rows) zones = scan_zone_rows rows (zones @ [fst c])"

text \<open>The loop over the collected zone names.\<close>

fun push_all :: "('db, 'z) engine \<Rightarrow> string list \<Rightarrow> 'db \<Rightarrow> push_outcome \<times> 'db" where
  "push_all eng [] db = (Returns None, db)"
| "push_all eng (z # zones) db =
     (case PushZone eng z db of
        None \<Rightarrow> (NoReturn, db)
      | Some db' \<Rightarrow> push_all eng zones db')"

text \<open>
  After a failed \<^verbatim>\<open>Query\<close> the rows are nil: where \<^verbatim>\<open>CheckSQLError\<close> says true the
  function returns the error and the deferred \<^verbatim>\<open>rows.Close()\<close> panics, and where it says
  false \<^verbatim>\<open>rows.Next()\<close> panics.
\<close>

definition PushZones :: "('db, 'z) engine \<Rightarrow> 'db \<Rightarrow> push_outcome \<times> 'db" where
  "PushZones eng db =
     (case db_prepare eng db AutoZones of
        Some err \<Rightarrow> (PushFatal (''PushZones: Error from mdb.Prepare('' @ AutoZones @ ''): '' @ err), db)
      | None \<Rightarrow>
          (case db_begin eng db of
             Some err \<Rightarrow> (PushFatal (''PushZones: Error from mdb.Begin(): '' @ err), db)
           | None \<Rightarrow>
               (case db_query eng db AutoZones of
                  Inl err \<Rightarrow> (PushPanic, db)
                | Inr rows \<Rightarrow>
                    if CheckSQLError eng ''PushZones'' AutoZones None False then (Returns None, db)
                    else
                      (case scan_zone_rows rows [] of
                         Inl msg \<Rightarrow> (PushFatal msg, db)
                       | Inr zones \<Rightarrow> push_all eng zones db))))"


section \<open>What the LEAVE_ADD_CDS action is to publish\<close>

text \<open>
  The signers of the group other than the leaving one, the answer a signer gives to the
  DNSKEY query, the key-signing keys among the answers (flags with both bit \<open>0x100\<close> and
  bit \<open>0x1\<close> set), and the CDS and CDNSKEY that belong to such a key: the CDS with the
  SHA-256 digest of the key, the CDNSKEY with the key's own flags, protocol, algorithm and
  public key.
\<close>

definition remaining_signers :: "Zone \<Rightarrow> SignerGroup \<Rightarrow> Signer list" where
  "remaining_signers z sg = filter (\<lambda>s. Signer_Name s \<noteq> FSMSigner z) (map snd (SignerMap sg))"

definition dnskey_answer :: "env \<Rightarrow> Zone \<Rightarrow> Signer \<Rightarrow> RR list" where
  "dnskey_answer e z s =
     (case Exchange e (Question (Zone_Name z) TypeDNSKEY None) (Address s @ '':'' @ Port s) of
        Inl err \<Rightarrow> [] | Inr r \<Rightarrow> Answer r)"

text \<open>
  The remaining signers in the order in which the second loop visits them; whether a signer
  answers the DNSKEY query; whether a signer's updater accepts the insertion of given
  record sets at the zone's apex.
\<close>

definition publish_order :: "env \<Rightarrow> Zone \<Rightarrow> SignerGroup \<Rightarrow> Signer list" where
  "publish_order e z sg =
     filter (\<lambda>s. Signer_Name s \<noteq> FSMSigner z) (map snd (SecondRange e (SignerMap sg)))"

definition answers_DNSKEY :: "env \<Rightarrow> Zone \<Rightarrow> Signer \<Rightarrow> bool" where
  "answers_DNSKEY e z s =
     (case Exchange e (Question (Zone_Name z) TypeDNSKEY None) (Address s @ '':'' @ Port s) of
        Inl err \<Rightarrow> False | Inr r \<Rightarrow> True)"

definition accepts_inserts :: "env \<Rightarrow> Zone \<Rightarrow> RR list list \<Rightarrow> Signer \<Rightarrow> bool" where
  "accepts_inserts e z rrsets s =
     (UpdaterUpdate e s (Zone_Name z) (Zone_Name z) (Some rrsets) None = None)"

definition KSKs :: "RR list \<Rightarrow> DNSKEY_rr list" where
  "KSKs as = [k. DNSKEY k \<leftarrow> as, Flags k AND 0x101 = 257]"

definition answered_KSKs :: "env \<Rightarrow> Zone \<Rightarrow> SignerGroup \<Rightarrow> DNSKEY_rr list" where
  "answered_KSKs e z sg = concat (map (\<lambda>s. KSKs (dnskey_answer e z s)) (remaining_signers z sg))"

definition sha256_CDS :: "env \<Rightarrow> DNSKEY_rr \<Rightarrow> RR" where
  "sha256_CDS e k =
     CDS \<lparr>DS_Hdr = \<lparr>Hdr_Name = Hdr_Name (Hdr k), Hdr_Rrtype = TypeCDS, Hdr_Class = Hdr_Class (Hdr k),
                    Hdr_Ttl = Hdr_Ttl (Hdr k)\<rparr>,
          KeyTag = lib_KeyTag e k, DS_Algorithm = Algorithm k, DigestType = SHA256,
          Digest = lib_Digest e SHA256 k\<rparr>"

definition echo_CDNSKEY :: "DNSKEY_rr \<Rightarrow> RR" where
  "echo_CDNSKEY k =
     CDNSKEY \<lparr>Hdr = \<lparr>Hdr_Name = Hdr_Name (Hdr k), Hdr_Rrtype = TypeCDNSKEY,
                      Hdr_Class = Hdr_Class (Hdr k), Hdr_Ttl = Hdr_Ttl (Hdr k)\<rparr>,
              Flags = Flags k, Protocol = Protocol k, Algorithm = Algorithm k,
              PublicKey = PublicKey k\<rparr>"

text \<open>The updates a transition sent, in order: signer, inserts, removes.\<close>

fun updates_of :: "io list \<Rightarrow> (Signer \<times> RR list list option \<times> RR list list option) list" where
  "updates_of [] = []"
| "updates_of (DnsUpdate s zn owner ins rem # evs) = (s, ins, rem) # updates_of evs"
| "updates_of (ev # evs) = updates_of evs"

section \<open>Example inputs\<close>

definition signerA :: Signer where
  "signerA = \<lparr>Signer_Name = ''signer1.example.'', Method = ''ddns'', Auth = ''key1:c2VjcmV0'',
      Address = ''192.0.2.1'', Port = ''53''\<rparr>"

definition signerB :: Signer where
  "signerB = \<lparr>Signer_Name = ''signer2.example.'', Method = ''ddns'', Auth = ''key2:c2VjcmV0'',
      Address = ''192.0.2.2'', Port = ''53''\<rparr>"

definition signerL :: Signer where
  "signerL = \<lparr>Signer_Name = ''signer3.example.'', Method = ''ddns'', Auth = ''key3:c2VjcmV0'',
      Address = ''192.0.2.3'', Port = ''53''\<rparr>"

definition group0 :: SignerGroup where
  "group0 = \<lparr>SignerMap = [(''signer1.example.'', signerA), (''signer2.example.'', signerB),
      (''signer3.example.'', signerL)]\<rparr>"

text \<open>A zone in a LEAVE process with no leaving signer set, one with it set, and a debug zone.\<close>

definition zone_unset :: Zone where
  "zone_unset = \<lparr>Zone_Name = ''example.'', ZoneType = ''normal'', FSM = ''remove-signer'',
      FSMSigner = [], FSMStatus = ''ok'', StopReason = [], SGroup = Some group0\<rparr>"

definition zone_leave :: Zone where
  "zone_leave = \<lparr>Zone_Name = ''example.'', ZoneType = ''normal'', FSM = ''remove-signer'',
      FSMSigner = ''signer3.example.'', FSMStatus = ''ok'', StopReason = [], SGroup = Some group0\<rparr>"

definition zone_debug :: Zone where
  "zone_debug = \<lparr>Zone_Name = ''test.'', ZoneType = ''debug'', FSM = ''remove-signer'',
      FSMSigner = ''signer3.example.'', FSMStatus = ''ok'', StopReason = [], SGroup = Some group0\<rparr>"

definition hdr0 :: "uint16 \<Rightarrow> RR_Header" where
  "hdr0 t = \<lparr>Hdr_Name = ''example.'', Hdr_Rrtype = t, Hdr_Class = 1, Hdr_Ttl = 3600\<rparr>"

definition ksk0 :: DNSKEY_rr where
  "ksk0 = \<lparr>Hdr = hdr0 48, Flags = 257, Protocol = 3, Algorithm = 13, PublicKey = ''a3NrMA==''\<rparr>"

definition zsk0 :: DNSKEY_rr where
  "zsk0 = \<lparr>Hdr = hdr0 48, Flags = 256, Protocol = 3, Algorithm = 13, PublicKey = ''enNrMA==''\<rparr>"

text \<open>
  A database that knows the three signers of the group by name, and a network where
  every signer answers every query with a key-signing key, a zone-signing key and an NS,
  and accepts every update. A second range over a map visits the entries in the reverse
  of the first order.
\<close>

definition env_up :: env where
  "env_up = \<lparr>SignerGroupOf = SGroup,
      GetSignerByName = (\<lambda>n. case map_of (SignerMap group0) n of
                                None \<Rightarrow> Inl ''sql: no rows in result set'' | Some s \<Rightarrow> Inr s),
      Prepare = (\<lambda>q. None),
      StmtQuery = (\<lambda>q zn signer. Inr []),
      Exchange = (\<lambda>m addr. Inr \<lparr>Rcode = 0,
                     Answer = [DNSKEY ksk0, DNSKEY zsk0, NS (hdr0 2) ''ns1.example.'']\<rparr>),
      UpdaterUpdate = (\<lambda>s zn owner ins rem. None),
      lib_KeyTag = (\<lambda>k. 4711),
      lib_Digest = (\<lambda>h k. ''00''),
      SecondRange = rev\<rparr>"

text \<open>A database that finds a signer under every name, and a network where no signer answers.\<close>

definition env_down :: env where
  "env_down = env_up\<lparr>GetSignerByName := (\<lambda>n. Inr (signerL\<lparr>Signer_Name := n\<rparr>)),
      Exchange := (\<lambda>m addr. Inl ''i/o timeout'')\<rparr>"

text \<open>Ops of the rlddns updater: a DNSKEY fetch from the first signer, answered on channel \<open>c\<close>.\<close>

definition fetch_op :: "chan \<Rightarrow> SignerOp" where
  "fetch_op c = \<lparr>Signer = Some signerA, Zone = ''example.'', Owner = ''example.'', RRtype = TypeDNSKEY,
      Inserts = None, Removes = None, Response = Some c\<rparr>"

text \<open>A network call that is never rate-limited, as every return of \<^verbatim>\<open>RLDdnsUpdate\<close> is.\<close>

definition call_ok :: "unit netcall" where
  "call_ok op w = Some ((False, 0, None), w)"




text \<open>An update op: the insertion of one NS record at the first signer.\<close>

definition update_op :: "chan \<Rightarrow> SignerOp" where
  "update_op c = \<lparr>Signer = Some signerA, Zone = ''example.'', Owner = ''example.'', RRtype = 0,
      Inserts = Some [[NS (hdr0 2) ''ns1.example.'']], Removes = None, Response = Some c\<rparr>"

section \<open>The rate-limited manager: what a tick does\<close>

lemma split_key1: "SplitN_colon_2 ''key1:c2VjcmV0'' = [''key1'', ''c2VjcmV0'']"
  by (simp add: SplitN_colon_2_def)

lemma fetch_op_served:
  "RLDdnsFetchRRset (Exchange env_up) (fetch_op c) log =
     Some ((False, 0, None), log @ [(c, \<lparr>Status = 0, RRs = [DNSKEY ksk0, DNSKEY zsk0], Error = None,
        RawResponse = ''Tjolahopp''\<rparr>)])"
  by (simp add: RLDdnsFetchRRset_def fetch_op_def signerA_def fetch_prereq_def split_key1 env_up_def
      RcodeSuccess_def TypeToString_def TypeDNSKEY_def fetch_switch_def)

lemma call_loop_fetch_op:
  "call_loop (RLDdnsFetchRRset (Exchange env_up)) (fetch_op c) (log, tr) =
     Some (log @ [(c, \<lparr>Status = 0, RRs = [DNSKEY ksk0, DNSKEY zsk0], Error = None,
        RawResponse = ''Tjolahopp''\<rparr>)], tr @ [NetCall (fetch_op c)])"
  by (subst call_loop.simps) (simp add: fetch_op_served)

text \<open>
  \<^verbatim>\<open>RLDdnsFetchRRset\<close> never reports rate-limiting: (false, 0, nil) is its every return.
\<close>

lemma RLDdnsFetchRRset_not_rate_limited:
  "RLDdnsFetchRRset ex fdop log = Some (ret, log') \<Longrightarrow> ret = (False, 0, None)"
  by (simp add: RLDdnsFetchRRset_def Let_def split: option.splits sum.splits if_splits)

text \<open>
  Whatever the network call does, when the inner loop returns it has made its calls for
  the one op it was given: each call that reported rate-limiting is followed by a sleep of
  the hold that call returned and by another call for the same op, and the last call is
  the one that did not report rate-limiting. The loop does not touch the lane's counter.
\<close>

lemma call_loop_trace:
  assumes "call_loop call op s = Some r"
  shows "\<exists>holds. snd r = snd s @ concat (map (\<lambda>h. [NetCall op, Sleep h]) holds) @ [NetCall op]"
  using assms
proof (induction rule: call_loop.raw_induct [rotated 1, consumes 1, case_names step])
  case (step f call op s r)
  show ?case
  proof (cases "call op (fst s)")
    case None
    with step(2) show ?thesis by simp
  next
    case (Some a)
    obtain rl hold err w' where a: "a = ((rl, hold, err), w')" by (cases a) auto
    show ?thesis
    proof (cases rl)
      case False
      with step(2) Some a have "r = (w', snd s @ [NetCall op])" by simp
      then show ?thesis by (intro exI [of _ "[]"]) simp
    next
      case True
      with step(2) Some a have "f call op (w', snd s @ [NetCall op, Sleep hold]) = Some r"
        by simp
      from step(1) [OF this] obtain holds where
        "snd r = (snd s @ [NetCall op, Sleep hold])
           @ concat (map (\<lambda>h. [NetCall op, Sleep h]) holds) @ [NetCall op]"
        by auto
      then show ?thesis by (intro exI [of _ "hold # holds"]) simp
    qed
  qed
qed

text \<open>
  Whatever the network call does, a tick that returns leaves the ops of the queue where
  they were: the queue after the tick is the queue before it, followed by at most the ops
  the tick appended. The update lane never reads the update limit.
\<close>

lemma fetch_range_keeps_queue:
  "fetch_range lim call xs s = Some s' \<Longrightarrow> \<exists>ys. OpQueue s' = OpQueue s @ ys"
proof (induction xs arbitrary: s)
  case Nil
  then show ?case by simp
next
  case (Cons x xs)
  show ?case
  proof (cases "ops s + 1 > fetch_limit lim")
    case True
    with Cons.prems show ?thesis by (auto simp: Let_def)
  next
    case False
    with Cons.prems obtain w' tr' where
      "fetch_range lim call xs (s\<lparr>ops := ops s + 1, world := w', trace := tr'\<rparr>) = Some s'"
      by (auto simp: Let_def split: option.splits)
    from Cons.IH [OF this] show ?thesis by simp
  qed
qed

lemma fetch_lane_keeps_queue:
  "fetch_lane lim call s i = Some s' \<Longrightarrow> \<exists>ys. OpQueue s' = OpQueue s @ ys"
proof (cases i)
  case (Recv op)
  assume "fetch_lane lim call s i = Some s'"
  with Recv show ?thesis by auto
next
  case Tick
  assume "fetch_lane lim call s i = Some s'"
  with Tick fetch_range_keeps_queue [of lim call "OpQueue s" "s\<lparr>ops := 0\<rparr>" s'] show ?thesis by simp
next
  case Done
  assume "fetch_lane lim call s i = Some s'"
  with Done show ?thesis by simp
qed

lemma update_range_ignores_update_limit:
  "update_range (lim\<lparr>update_limit := u\<rparr>) call xs s = update_range lim call xs s"
  by (induction xs arbitrary: s) (simp_all add: Let_def split: option.splits)

lemma update_lane_ignores_update_limit:
  "update_lane (lim\<lparr>update_limit := u\<rparr>) call s i = update_lane lim call s i"
  by (cases i) (simp_all add: update_range_ignores_update_limit)

text \<open>
  C1 (the code departs from the claim). The fetch lane with a limit of one op per tick
  receives two ops and then sees two ticks. The first op is served on both ticks, so its
  response channel (1) is sent two results; the second op is never served and its channel
  (2) is sent nothing; no op leaves the queue, and each tick appends one more copy of the
  second op to it.
\<close>

theorem fetch_lane_serves_first_op_on_every_tick:
  "map_option (\<lambda>s. (OpQueue s, map fst (world s), net_calls (trace s)))
     (run_lane (fetch_lane \<lparr>fetch_limit = 1, update_limit = 1\<rparr> (RLDdnsFetchRRset (Exchange env_up)))
        \<lparr>OpQueue = [], ops = 0, world = [], trace = []\<rparr>
        [Recv (fetch_op 1), Recv (fetch_op 2), Tick, Tick])
   = Some ([fetch_op 1, fetch_op 2, fetch_op 2, fetch_op 2], [1, 1], [fetch_op 1, fetch_op 1])"
  by (simp add: call_loop_fetch_op)

text \<open>
  C2 (the code departs from the claim). The update lane compares its counter with the
  fetch limit. With a fetch limit of 5 and an update limit of 2, three queued update ops
  are all served, one network call each, within one tick.
\<close>

theorem update_lane_counts_against_fetch_limit:
  "map_option (\<lambda>s. net_calls (trace s))
     (run_lane (update_lane \<lparr>fetch_limit = 5, update_limit = 2\<rparr> call_ok)
        \<lparr>OpQueue = [], ops = 0, world = (), trace = []\<rparr>
        [Recv (update_op 1), Recv (update_op 2), Recv (update_op 3), Tick])
   = Some [update_op 1, update_op 2, update_op 3]"
  by (simp add: call_loop.simps call_ok_def)

section \<open>The rlddns updater: what it sends\<close>

text \<open>
  C7 (the code departs from the claim). Whatever the manager does and whatever signer,
  zone, owner, inserts and removes \<^verbatim>\<open>Update\<close> is called with, the op it sends is the zero
  \<^verbatim>\<open>SignerOp{}\<close>: no signer, no zone, no owner, no inserts, no removes and a nil response
  channel; the receive on that channel never returns, so \<^verbatim>\<open>Update\<close> has no return value.
\<close>

theorem RLDdnsUpdater_Update_sends_empty_op:
  "RLDdnsUpdater_Update mgr signerA ''example.'' ''example.'' (Some [[NS (hdr0 2) ''ns1.example.'']]) None =
     (\<lparr>Signer = None, Zone = [], Owner = [], RRtype = 0, Inserts = None, Removes = None,
       Response = None\<rparr>, None)"
  by (simp add: RLDdnsUpdater_Update_def recv_def)

section \<open>RLDdnsFetchRRset: the records of a successful fetch\<close>

lemma TypeToString_iff:
  "TypeToString t = ''DNSKEY'' \<longleftrightarrow> t = 48"
  "TypeToString t = ''CDS'' \<longleftrightarrow> t = 59"
  "TypeToString t = ''CDNSKEY'' \<longleftrightarrow> t = 60"
  "TypeToString t = ''NS'' \<longleftrightarrow> t = 2"
  "TypeToString t = ''DS'' \<longleftrightarrow> t = 43"
  "TypeToString t = ''SOA'' \<longleftrightarrow> t = 6"
  "TypeToString t = ''CSYNC'' \<longleftrightarrow> t = 62"
  by (simp_all add: TypeToString_def)

lemmas Type_defs = TypeDNSKEY_def TypeCDNSKEY_def TypeDS_def TypeCDS_def TypeNS_def TypeSOA_def
  TypeCSYNC_def

lemma fetch_switch_type:
  "fetch_switch (TypeToString t) a rrs = rrs \<or>
   (fetch_switch (TypeToString t) a rrs = rrs @ [a] \<and> RRtypeOf a = t)"
  unfolding fetch_switch_def TypeToString_iff
  by (cases a) (simp_all add: Type_defs)

lemma fetch_switch_other:
  "t \<notin> {TypeDNSKEY, TypeCDS, TypeCDNSKEY, TypeNS, TypeDS, TypeSOA, TypeCSYNC}
   \<Longrightarrow> fetch_switch (TypeToString t) a rrs = rrs"
  unfolding fetch_switch_def TypeToString_iff Type_defs by simp

lemma fetch_switch_mem:
  "rr \<in> set (fetch_switch (TypeToString t) a rrs) \<Longrightarrow> rr \<in> set rrs \<or> (rr = a \<and> RRtypeOf a = t)"
  using fetch_switch_type [of t a rrs] by (elim disjE conjE) (simp, fastforce)

lemma fetch_filter_type:
  "rr \<in> set (fetch_filter (TypeToString t) as rrs) \<Longrightarrow>
   rr \<in> set rrs \<or> (rr \<in> set as \<and> RRtypeOf rr = t)"
proof (induction as arbitrary: rrs)
  case Nil
  then show ?case by simp
next
  case (Cons a as)
  from Cons.prems have "rr \<in> set (fetch_filter (TypeToString t) as (fetch_switch (TypeToString t) a rrs))"
    by simp
  from Cons.IH [OF this] show ?case
  proof
    assume "rr \<in> set (fetch_switch (TypeToString t) a rrs)"
    from fetch_switch_mem [OF this] show ?thesis by auto
  next
    assume "rr \<in> set as \<and> RRtypeOf rr = t"
    then show ?thesis by simp
  qed
qed

lemma fetch_filter_other:
  assumes "t \<notin> {TypeDNSKEY, TypeCDS, TypeCDNSKEY, TypeNS, TypeDS, TypeSOA, TypeCSYNC}"
  shows "fetch_filter (TypeToString t) as rrs = rrs"
  by (induction as arbitrary: rrs) (simp_all only: fetch_filter.simps fetch_switch_other [OF assms])

text \<open>
  C10. Whenever \<^verbatim>\<open>RLDdnsFetchRRset\<close> returns, it has sent exactly one result, on the op's
  own response channel. When that result carries no error (the DNS exchange succeeded with
  RCODE success), every record of its RR list has the requested type, and the list is
  empty when the requested type is none of DNSKEY, CDS, CDNSKEY, NS, DS, SOA and CSYNC.
\<close>

theorem RLDdnsFetchRRset_only_requested_type:
  assumes "RLDdnsFetchRRset ex fdop log = Some (ret, log')"
  shows "\<exists>c res. Response fdop = Some c \<and> log' = log @ [(c, res)] \<and>
     (Error res = None \<longrightarrow>
        (\<forall>rr \<in> set (RRs res). RRtypeOf rr = RRtype fdop) \<and>
        (RRtype fdop \<notin> {TypeDNSKEY, TypeCDS, TypeCDNSKEY, TypeNS, TypeDS, TypeSOA, TypeCSYNC}
           \<longrightarrow> RRs res = []))"
proof (cases "Signer fdop")
  case None
  with assms show ?thesis by (simp add: RLDdnsFetchRRset_def)
next
  case (Some signer)
  note s = this
  show ?thesis
  proof (cases "Response fdop")
    case None
    with assms s show ?thesis by (simp add: RLDdnsFetchRRset_def)
  next
    case (Some c)
    note c = this
    have failed: ?thesis if "log' = log @ [(c, ErrorResult err)]" for err
    proof (intro exI conjI)
      show "Response fdop = Some c" by (rule c)
      show "log' = log @ [(c, ErrorResult err)]" by (rule that)
      show "Error (ErrorResult err) = None \<longrightarrow>
        (\<forall>rr \<in> set (RRs (ErrorResult err)). RRtypeOf rr = RRtype fdop) \<and>
        (RRtype fdop \<notin> {TypeDNSKEY, TypeCDS, TypeCDNSKEY, TypeNS, TypeDS, TypeSOA, TypeCSYNC}
           \<longrightarrow> RRs (ErrorResult err) = [])"
        by (simp add: ErrorResult_def)
    qed
    show ?thesis
    proof (cases "fetch_prereq signer")
      case (Some err)
      with assms s c have "log' = log @ [(c, ErrorResult err)]"
        by (simp add: RLDdnsFetchRRset_def)
      then show ?thesis by (rule failed)
    next
      case None
      note p = this
      let ?m = "Question (Owner fdop) (RRtype fdop)
                  (Some (hd (SplitN_colon_2 (Auth signer)) @ ''.'', hd (tl (SplitN_colon_2 (Auth signer)))))"
      show ?thesis
      proof (cases "ex ?m (Address signer @ '':53'')")
        case (Inl err)
        with assms s c p have "log' = log @ [(c, ErrorResult err)]"
          by (simp add: RLDdnsFetchRRset_def Let_def)
        then show ?thesis by (rule failed)
      next
        case (Inr r)
        show ?thesis
        proof (cases "Rcode r = RcodeSuccess")
          case False
          with assms s c p Inr have "log' = log @ [(c, ErrorResult (''Fetch of ''
               @ TypeToString (RRtype fdop) @ '' RRset failed, RCODE = '' @ RcodeToString (Rcode r)))]"
            by (simp add: RLDdnsFetchRRset_def Let_def)
          then show ?thesis by (rule failed)
        next
          case True
          let ?rrs = "fetch_filter (TypeToString (RRtype fdop)) (Answer r) []"
          let ?res = "\<lparr>Status = 0, RRs = ?rrs, Error = None, RawResponse = ''Tjolahopp''\<rparr>"
          from True assms s c p Inr have log': "log' = log @ [(c, ?res)]"
            by (simp add: RLDdnsFetchRRset_def Let_def)
          have only: "RRtypeOf rr = RRtype fdop" if "rr \<in> set ?rrs" for rr
            using fetch_filter_type [OF that] by simp
          have none: "?rrs = []"
            if "RRtype fdop \<notin> {TypeDNSKEY, TypeCDS, TypeCDNSKEY, TypeNS, TypeDS, TypeSOA, TypeCSYNC}"
            using that by (rule fetch_filter_other)
          show ?thesis
          proof (intro exI conjI)
            show "Response fdop = Some c" by (rule c)
            show "log' = log @ [(c, ?res)]" by (rule log')
            show "Error ?res = None \<longrightarrow>
              (\<forall>rr \<in> set (RRs ?res). RRtypeOf rr = RRtype fdop) \<and>
              (RRtype fdop \<notin> {TypeDNSKEY, TypeCDS, TypeCDNSKEY, TypeNS, TypeDS, TypeSOA, TypeCSYNC}
                 \<longrightarrow> RRs ?res = [])"
              using only none by simp
          qed
        qed
      qed
    qed
  qed
qed

text \<open>
  Witness for C10: a DNSKEY fetch whose answer section holds two DNSKEYs and an NS. The
  result sent on the op's channel has no error and holds the two DNSKEYs only.
\<close>

theorem RLDdnsFetchRRset_only_requested_type_witness:
  "RLDdnsFetchRRset (Exchange env_up) (fetch_op 7) [] =
     Some ((False, 0, None), [(7, \<lparr>Status = 0, RRs = [DNSKEY ksk0, DNSKEY zsk0], Error = None,
        RawResponse = ''Tjolahopp''\<rparr>)])
   \<and> RRtypeOf (DNSKEY ksk0) = RRtype (fetch_op 7) \<and> RRtypeOf (DNSKEY zsk0) = RRtype (fetch_op 7)"
proof -
  have run: "RLDdnsFetchRRset (Exchange env_up) (fetch_op 7) [] =
     Some ((False, 0, None), [(7, \<lparr>Status = 0, RRs = [DNSKEY ksk0, DNSKEY zsk0], Error = None,
        RawResponse = ''Tjolahopp''\<rparr>)])"
    by (simp add: RLDdnsFetchRRset_def fetch_op_def signerA_def fetch_prereq_def split_key1 env_up_def
        RcodeSuccess_def TypeToString_def TypeDNSKEY_def fetch_switch_def)
  from RLDdnsFetchRRset_only_requested_type [OF run] show ?thesis using run by simp
qed


section \<open>The LEAVE transitions: the leaving signer and the debug shortcut\<close>

text \<open>
  Counterexample for C4. A zone in a LEAVE process, not of type debug, attached to a signer
  group, with an empty \<open>FSMSigner\<close>: the LEAVE_SYNC_NSES action ends the program in
  \<^verbatim>\<open>log.Fatalf\<close>. It does not return, the zone's \<open>FSMStatus\<close> is still \<open>ok\<close> and not \<open>stop\<close>, and
  no stop reason is recorded.
\<close>

theorem LeaveSyncNsesAction_unset_signer_not_stopped:
  "fst (LeaveSyncNsesAction env_up zone_unset) = Fatal ''Leaving signer name for zone example. unset.''
   \<and> FSMStatus (zone (snd (LeaveSyncNsesAction env_up zone_unset))) = ''ok''
   \<and> StopReason (zone (snd (LeaveSyncNsesAction env_up zone_unset))) = []"
  by (simp add: LeaveSyncNsesAction_def env_up_def zone_unset_def msg_no_leaving_def Let_def)

text \<open>
  C4, amended. For every zone that is not of type debug and whose \<open>FSMSigner\<close> is empty,
  the LEAVE_SYNC_NSES action, the LEAVE_ADD_CDS precondition and the LEAVE_ADD_CDS action
  end the program in \<^verbatim>\<open>log.Fatalf\<close> with a message that names the zone (the missing
  leaving signer, or, where the function checks the signer group first and there is none,
  the missing signer group). The zone is left as it was, and no signer was looked up,
  queried or sent an update.
\<close>

theorem leave_unset_signer_is_fatal:
  assumes "ZoneType z \<noteq> ''debug''" and "FSMSigner z = []"
  shows "LeaveSyncNsesAction e z =
           (Fatal (if SignerGroupOf e z = None then msg_no_group z else msg_no_leaving z),
            \<lparr>zone = z, io = []\<rparr>)
       \<and> LeaveAddCDSPreCondition e z =
           (Fatal (if SignerGroupOf e z = None then msg_no_group z else msg_no_leaving z),
            \<lparr>zone = z, io = []\<rparr>)
       \<and> LeaveAddCDSAction e z = (Fatal (msg_no_leaving z), \<lparr>zone = z, io = []\<rparr>)"
  using assms
  by (simp add: LeaveSyncNsesAction_def LeaveAddCDSPreCondition_def LeaveAddCDSAction_def Let_def)

text \<open>Witness for C4, amended: the zone of the counterexample.\<close>

theorem leave_unset_signer_is_fatal_witness:
  "LeaveSyncNsesAction env_up zone_unset =
     (Fatal ''Leaving signer name for zone example. unset.'', \<lparr>zone = zone_unset, io = []\<rparr>)
   \<and> LeaveAddCDSPreCondition env_up zone_unset =
     (Fatal ''Leaving signer name for zone example. unset.'', \<lparr>zone = zone_unset, io = []\<rparr>)
   \<and> LeaveAddCDSAction env_up zone_unset =
     (Fatal ''Leaving signer name for zone example. unset.'', \<lparr>zone = zone_unset, io = []\<rparr>)"
proof -
  have h1: "ZoneType zone_unset \<noteq> ''debug''" by (simp add: zone_unset_def)
  have h2: "FSMSigner zone_unset = []" by (simp add: zone_unset_def)
  have h3: "SignerGroupOf env_up zone_unset \<noteq> None" by (simp add: zone_unset_def env_up_def)
  have h4: "msg_no_leaving zone_unset = ''Leaving signer name for zone example. unset.''"
    by (simp add: msg_no_leaving_def zone_unset_def)
  show ?thesis using leave_unset_signer_is_fatal [OF h1 h2, of env_up] h3 h4 by simp
qed

text \<open>
  C5 (the code departs from the claim). The zone's \<open>FSMSigner\<close> is \<open>signer3.example.\<close>, a
  signer the database knows. The LEAVE_ADD_CSYNC precondition and action look up
  \<open>signer2.catch22.se.\<close> instead, which the database does not know, and return false; the
  signer the zone names is never looked up nor addressed.
\<close>

theorem LeaveAddCsync_uses_fixed_signer_name:
  "LeaveAddCsyncPreCondition env_up zone_leave =
     (Return False, \<lparr>zone = zone_leave, io = [DbGetSigner ''signer2.catch22.se.'']\<rparr>)
   \<and> LeaveAddCsyncAction env_up zone_leave =
     (Return False, \<lparr>zone = zone_leave, io = [DbGetSigner ''signer2.catch22.se.'']\<rparr>)"
  by (simp add: LeaveAddCsyncPreCondition_def LeaveAddCsyncAction_def env_up_def group0_def
      leaving_signer_csync_def log_io_def Let_def)

text \<open>
  C6 (the code departs from the claim). A zone of type debug, and signers that do not
  answer. The LEAVE_ADD_CSYNC precondition and action have no debug shortcut: each looks
  up the leaving signer, queries the first signer of the group, and returns false when the
  query fails.
\<close>

theorem LeaveAddCsync_debug_zone_queries_signers:
  "LeaveAddCsyncPreCondition env_down zone_debug =
     (Return False, \<lparr>zone = zone_debug, io = [DbGetSigner ''signer2.catch22.se.'',
         DbQuery sql_nses ''test.'' ''signer2.catch22.se.'',
         DnsQuery (Question ''test.'' TypeNS None) ''192.0.2.1:53'']\<rparr>)
   \<and> LeaveAddCsyncAction env_down zone_debug =
     (Return False, \<lparr>zone = zone_debug, io = [DbGetSigner ''signer2.catch22.se.'',
         DnsQuery (Question ''test.'' TypeSOA None) ''192.0.2.1:53'']\<rparr>)"
  by (simp add: LeaveAddCsyncPreCondition_def LeaveAddCsyncAction_def env_down_def env_up_def group0_def
      leaving_signer_csync_def log_io_def zone_debug_def signerL_def signerA_def signerB_def
      csync_pre_signer_def csync_signer_def Let_def sql_nses_def TypeNS_def TypeSOA_def)

section \<open>LEAVE_ADD_CDS: the record sets published\<close>

lemma KSKs_simps:
  "KSKs [] = []"
  "KSKs (DNSKEY k # as) = (if Flags k AND 0x101 = 257 then k # KSKs as else KSKs as)"
  "\<not> is_DNSKEY a \<Longrightarrow> KSKs (a # as) = KSKs as"
  by (cases a; simp add: KSKs_def)+

lemma ToCDS_ToDS: "CDS (ToCDS (ToDS e k SHA256)) = sha256_CDS e k"
  by (simp add: ToCDS_def ToDS_def sha256_CDS_def)

lemma ToCDNSKEY_echo: "CDNSKEY (ToCDNSKEY k) = echo_CDNSKEY k"
  by (simp add: ToCDNSKEY_def echo_CDNSKEY_def)

lemma add_cds_answers_eq:
  "add_cds_answers e as acc =
     (fst acc @ map (sha256_CDS e) (KSKs as), snd acc @ map echo_CDNSKEY (KSKs as))"
  by (induction e as acc rule: add_cds_answers.induct)
     (simp_all add: KSKs_simps ToCDS_ToDS ToCDNSKEY_echo)

lemma updates_of_append: "updates_of (xs @ ys) = updates_of xs @ updates_of ys"
  by (induction xs rule: updates_of.induct) simp_all

lemma add_cds_fetch_updates:
  "updates_of (io (snd (add_cds_fetch e z l ss acc st))) = updates_of (io st)"
  by (induction ss arbitrary: acc st)
     (simp_all add: Let_def log_io_def SetStopReason_def updates_of_append split: sum.splits)

lemma add_cds_fetch_Inl:
  "add_cds_fetch e z l ss acc st = (Inl out, st') \<Longrightarrow> out = Return False"
  by (induction ss arbitrary: acc st) (auto simp: Let_def split: if_splits sum.splits)

lemma add_cds_fetch_acc:
  "add_cds_fetch e z l ss acc st = (Inr acc', st') \<Longrightarrow>
   acc' = (fst acc @ map (sha256_CDS e)
                      (concat (map (\<lambda>s. KSKs (dnskey_answer e z s)) (filter (\<lambda>s. Signer_Name s \<noteq> l) ss))),
           snd acc @ map echo_CDNSKEY
                      (concat (map (\<lambda>s. KSKs (dnskey_answer e z s)) (filter (\<lambda>s. Signer_Name s \<noteq> l) ss))))"
proof (induction ss arbitrary: acc st)
  case Nil
  then show ?case by auto
next
  case (Cons s ss)
  show ?case
  proof (cases "Signer_Name s = l")
    case True
    with Cons.prems have "add_cds_fetch e z l ss acc st = (Inr acc', st')" by simp
    from Cons.IH [OF this] True show ?thesis by simp
  next
    case False
    let ?m = "Question (Zone_Name z) TypeDNSKEY None"
    let ?addr = "Address s @ '':'' @ Port s"
    show ?thesis
    proof (cases "Exchange e ?m ?addr")
      case (Inl err)
      with False Cons.prems show ?thesis by (simp add: Let_def)
    next
      case (Inr r)
      with False Cons.prems
      have "add_cds_fetch e z l ss (add_cds_answers e (Answer r) acc) (log_io (DnsQuery ?m ?addr) st)
              = (Inr acc', st')"
        by (simp add: Let_def)
      from Cons.IH [OF this] False Inr show ?thesis
        by (simp add: add_cds_answers_eq dnskey_answer_def)
    qed
  qed
qed

lemma add_cds_publish_updates:
  "add_cds_publish e z l rrsets ss st = (r, st') \<Longrightarrow>
   \<exists>n. updates_of (io st') = updates_of (io st)
         @ map (\<lambda>s. (s, Some rrsets, None)) (take n (filter (\<lambda>s. Signer_Name s \<noteq> l) ss))
       \<and> (r = None \<longrightarrow> n = length (filter (\<lambda>s. Signer_Name s \<noteq> l) ss))
       \<and> (r = None \<or> r = Some (Return False))"
proof (induction ss arbitrary: st)
  case Nil
  then show ?case by auto
next
  case (Cons s ss)
  show ?case
  proof (cases "Signer_Name s = l")
    case True
    with Cons.prems have "add_cds_publish e z l rrsets ss st = (r, st')" by simp
    from Cons.IH [OF this] True show ?thesis by simp
  next
    case False
    let ?st1 = "log_io (DnsUpdate s (Zone_Name z) (Zone_Name z) (Some rrsets) None) st"
    have u1: "updates_of (io ?st1) = updates_of (io st) @ [(s, Some rrsets, None)]"
      by (simp add: log_io_def updates_of_append)
    show ?thesis
    proof (cases "UpdaterUpdate e s (Zone_Name z) (Zone_Name z) (Some rrsets) None")
      case (Some err)
      with False Cons.prems have "updates_of (io st') = updates_of (io ?st1)"
        and "r = Some (Return False)"
        by (auto simp: Let_def SetStopReason_def)
      with u1 False show ?thesis
        by (intro exI [of _ 1]) auto
    next
      case None
      with False Cons.prems have "add_cds_publish e z l rrsets ss ?st1 = (r, st')"
        by (simp add: Let_def)
      from Cons.IH [OF this] obtain n where
        n: "updates_of (io st') = updates_of (io ?st1)
              @ map (\<lambda>s. (s, Some rrsets, None)) (take n (filter (\<lambda>s. Signer_Name s \<noteq> l) ss))"
           "r = None \<longrightarrow> n = length (filter (\<lambda>s. Signer_Name s \<noteq> l) ss)"
           "r = None \<or> r = Some (Return False)"
        by (elim exE conjE)
      with u1 False show ?thesis
        by (intro exI [of _ "Suc n"]) simp
    qed
  qed
qed

lemma add_cds_fetch_all_answer:
  "\<forall>s \<in> set ss. Signer_Name s \<noteq> l \<longrightarrow> answers_DNSKEY e z s \<Longrightarrow>
   \<exists>acc' st'. add_cds_fetch e z l ss acc st = (Inr acc', st')"
proof (induction ss arbitrary: acc st)
  case Nil
  then show ?case by simp
next
  case (Cons s ss)
  show ?case
  proof (cases "Signer_Name s = l")
    case True
    with Cons show ?thesis by simp
  next
    case False
    with Cons.prems obtain r where
      "Exchange e (Question (Zone_Name z) TypeDNSKEY None) (Address s @ '':'' @ Port s) = Inr r"
      by (auto simp: answers_DNSKEY_def split: sum.splits)
    with False Cons.IH Cons.prems show ?thesis by (simp add: Let_def)
  qed
qed

lemma add_cds_publish_all_accept:
  "\<forall>s \<in> set ss. Signer_Name s \<noteq> l \<longrightarrow> accepts_inserts e z rrsets s \<Longrightarrow>
   fst (add_cds_publish e z l rrsets ss st) = None"
proof (induction ss arbitrary: st)
  case Nil
  then show ?case by simp
next
  case (Cons s ss)
  show ?case
  proof (cases "Signer_Name s = l")
    case True
    with Cons show ?thesis by simp
  next
    case False
    with Cons.prems
    have "UpdaterUpdate e s (Zone_Name z) (Zone_Name z) (Some rrsets) None = None"
      by (simp add: accepts_inserts_def)
    with False Cons.IH Cons.prems show ?thesis by (simp add: Let_def)
  qed
qed

lemma publish_order_mset:
  assumes "mset (SecondRange e (SignerMap sg)) = mset (SignerMap sg)"
  shows "mset (publish_order e z sg) = mset (remaining_signers z sg)"
proof -
  have "mset (map snd (SecondRange e (SignerMap sg))) = mset (map snd (SignerMap sg))"
    using assms by (metis mset_map)
  then show ?thesis
    by (simp only: publish_order_def remaining_signers_def mset_filter)
qed

text \<open>
  C8. Let the second loop of the LEAVE_ADD_CDS action visit the signer map in any order
  (an order, so a rearrangement of the entries). Take the DNSKEYs answered by the remaining
  signers (the signers of the group other than the leaving one) whose flags satisfy
  \<open>flags AND 0x101 = 257\<close>, one entry per answered record, in the order of the answers.
  The signers the second loop may update are the remaining signers. Every update the
  action sends goes to one of them, in the order of the second loop, removes nothing, and
  inserts exactly two record sets: one SHA-256 CDS per such DNSKEY, and one CDNSKEY per
  such DNSKEY with that key's flags, protocol, algorithm and public key; no other DNSKEY
  contributes a record. When the zone is not of type debug, has its leaving signer set,
  every remaining signer answers the DNSKEY query and accepts the insertion, the action
  returns true and has sent this update to every remaining signer, once.
\<close>

theorem LeaveAddCDSAction_publishes_ksk_cds:
  assumes "SGroup z = Some sg"
      and "mset (SecondRange e (SignerMap sg)) = mset (SignerMap sg)"
      and "LeaveAddCDSAction e z = (out, st)"
      and "rrsets = [map (sha256_CDS e) (answered_KSKs e z sg), map echo_CDNSKEY (answered_KSKs e z sg)]"
  shows "mset (publish_order e z sg) = mset (remaining_signers z sg)
       \<and> (\<exists>n. updates_of (io st) = map (\<lambda>s. (s, Some rrsets, None)) (take n (publish_order e z sg)))
       \<and> (ZoneType z \<noteq> ''debug'' \<and> FSMSigner z \<noteq> []
            \<and> (\<forall>s \<in> set (remaining_signers z sg). answers_DNSKEY e z s \<and> accepts_inserts e z rrsets s)
          \<longrightarrow> out = Return True
            \<and> updates_of (io st) = map (\<lambda>s. (s, Some rrsets, None)) (publish_order e z sg))"
proof -
  let ?ss = "map snd (SignerMap sg)"
  let ?ss2 = "map snd (SecondRange e (SignerMap sg))"
  let ?st0 = "\<lparr>zone = z, io = []\<rparr>"
  let ?f = "\<lambda>s. (s, Some rrsets, None)"
  have perm: "mset (publish_order e z sg) = mset (remaining_signers z sg)"
    using assms(2) by (rule publish_order_mset)
  then have sets: "set (publish_order e z sg) = set (remaining_signers z sg)"
    by (rule mset_eq_setD)
  obtain r1 st1 where f: "add_cds_fetch e z (FSMSigner z) ?ss ([], []) ?st0 = (r1, st1)"
    by (cases "add_cds_fetch e z (FSMSigner z) ?ss ([], []) ?st0")
  from add_cds_fetch_updates [of e z "FSMSigner z" ?ss "([], [])" ?st0] f
  have u1: "updates_of (io st1) = []" by simp
  have sent: "\<exists>n. updates_of (io st) = map ?f (take n (publish_order e z sg))"
  proof (cases "ZoneType z = ''debug'' \<or> FSMSigner z = []")
    case True
    with assms(1,3) have "io st = []"
      by (auto simp: LeaveAddCDSAction_def Let_def split: if_splits)
    then show ?thesis by (intro exI [of _ 0]) simp
  next
    case False
    show ?thesis
    proof (cases r1)
      case (Inl out')
      with False assms(1,3) f have "st = st1" by (simp add: LeaveAddCDSAction_def Let_def)
      with u1 show ?thesis by (intro exI [of _ 0]) simp
    next
      case (Inr acc)
      from add_cds_fetch_acc [OF f [unfolded Inr]]
      have acc: "[fst acc, snd acc] = rrsets"
        by (simp add: assms(4) answered_KSKs_def remaining_signers_def)
      obtain r2 st2 where p: "add_cds_publish e z (FSMSigner z) rrsets ?ss2 st1 = (r2, st2)"
        by (cases "add_cds_publish e z (FSMSigner z) rrsets ?ss2 st1")
      from False assms(1,3) f Inr p acc have st: "st = st2"
        by (auto simp: LeaveAddCDSAction_def Let_def split: option.splits)
      from add_cds_publish_updates [OF p] obtain n where
        "updates_of (io st2) = updates_of (io st1)
            @ map ?f (take n (filter (\<lambda>s. Signer_Name s \<noteq> FSMSigner z) ?ss2))"
        by (elim exE conjE)
      with st u1 show ?thesis
        by (intro exI [of _ n]) (simp add: publish_order_def)
    qed
  qed
  have all: "out = Return True \<and> updates_of (io st) = map ?f (publish_order e z sg)"
    if nd: "ZoneType z \<noteq> ''debug''" and ls: "FSMSigner z \<noteq> []"
      and ok: "\<forall>s \<in> set (remaining_signers z sg). answers_DNSKEY e z s \<and> accepts_inserts e z rrsets s"
  proof -
    from ok have "\<forall>s \<in> set ?ss. Signer_Name s \<noteq> FSMSigner z \<longrightarrow> answers_DNSKEY e z s"
      by (simp add: remaining_signers_def)
    from add_cds_fetch_all_answer [OF this, of "([], [])" ?st0] f
    obtain acc where r1: "r1 = Inr acc" by auto
    from add_cds_fetch_acc [OF f [unfolded r1]]
    have acc: "[fst acc, snd acc] = rrsets"
      by (simp add: assms(4) answered_KSKs_def remaining_signers_def)
    obtain r2 st2 where p: "add_cds_publish e z (FSMSigner z) rrsets ?ss2 st1 = (r2, st2)"
      by (cases "add_cds_publish e z (FSMSigner z) rrsets ?ss2 st1")
    from ok sets have "\<forall>s \<in> set ?ss2. Signer_Name s \<noteq> FSMSigner z \<longrightarrow> accepts_inserts e z rrsets s"
      by (auto simp: publish_order_def)
    from add_cds_publish_all_accept [OF this, of st1] p have r2: "r2 = None" by simp
    from nd ls assms(1,3) f r1 p acc r2 have res: "out = Return True" "st = st2"
      by (simp_all add: LeaveAddCDSAction_def Let_def)
    from add_cds_publish_updates [OF p] r2 obtain n where
      "updates_of (io st2) = updates_of (io st1)
          @ map ?f (take n (filter (\<lambda>s. Signer_Name s \<noteq> FSMSigner z) ?ss2))"
      "n = length (filter (\<lambda>s. Signer_Name s \<noteq> FSMSigner z) ?ss2)"
      by (elim exE conjE) simp
    with res u1 show ?thesis by (simp add: publish_order_def)
  qed
  from perm sent all show ?thesis by simp
qed

text \<open>
  Witness for C8: three signers, the third leaving; each remaining signer answers with a
  key-signing key (flags 257), a zone-signing key (flags 256) and an NS. The first loop
  queries the first signer and then the second; the second loop visits the map in the
  reverse order and updates the second signer and then the first. Both are sent the two
  CDS and the two CDNSKEY of the two answered key-signing keys, and the action returns
  true.
\<close>

theorem LeaveAddCDSAction_publishes_ksk_cds_witness:
  "fst (LeaveAddCDSAction env_up zone_leave) = Return True
   \<and> updates_of (io (snd (LeaveAddCDSAction env_up zone_leave))) =
     [(signerB, Some [[sha256_CDS env_up ksk0, sha256_CDS env_up ksk0],
                      [echo_CDNSKEY ksk0, echo_CDNSKEY ksk0]], None),
      (signerA, Some [[sha256_CDS env_up ksk0, sha256_CDS env_up ksk0],
                      [echo_CDNSKEY ksk0, echo_CDNSKEY ksk0]], None)]"
proof -
  let ?rrsets = "[map (sha256_CDS env_up) (answered_KSKs env_up zone_leave group0),
                  map echo_CDNSKEY (answered_KSKs env_up zone_leave group0)]"
  have g: "SGroup zone_leave = Some group0" by (simp add: zone_leave_def)
  have p: "mset (SecondRange env_up (SignerMap group0)) = mset (SignerMap group0)"
    by (simp add: env_up_def)
  have nd: "ZoneType zone_leave \<noteq> ''debug''" "FSMSigner zone_leave \<noteq> []"
    by (simp_all add: zone_leave_def)
  have rem: "remaining_signers zone_leave group0 = [signerA, signerB]"
    by (simp add: remaining_signers_def zone_leave_def group0_def signerA_def signerB_def signerL_def)
  have ord: "publish_order env_up zone_leave group0 = [signerB, signerA]"
    by (simp add: publish_order_def env_up_def zone_leave_def group0_def signerA_def signerB_def
        signerL_def)
  have ks: "answered_KSKs env_up zone_leave group0 = [ksk0, ksk0]"
    by (simp add: answered_KSKs_def rem dnskey_answer_def env_up_def KSKs_def ksk0_def zsk0_def)
  have ok: "\<forall>s \<in> set (remaining_signers zone_leave group0).
      answers_DNSKEY env_up zone_leave s \<and> accepts_inserts env_up zone_leave ?rrsets s"
    by (simp add: answers_DNSKEY_def accepts_inserts_def env_up_def)
  from LeaveAddCDSAction_publishes_ksk_cds [OF g p surjective_pairing refl] nd ok
  have "fst (LeaveAddCDSAction env_up zone_leave) = Return True
      \<and> updates_of (io (snd (LeaveAddCDSAction env_up zone_leave))) =
          map (\<lambda>s. (s, Some ?rrsets, None)) (publish_order env_up zone_leave group0)"
    by blast
  then show ?thesis by (simp add: ord ks)
qed

section \<open>The auto-push scheduler: one step per selected row\<close>






end
